theory Spec2Isabelle
  imports Main "HOL-Library.Word" "HOL-Library.Sublist"
begin

section \<open>Values of the program\<close>

text \<open>
  A Python \<open>str\<close> is modelled as the list of its code points; Python's \<open>q in t\<close>
  on strings is \<^const>\<open>sublist\<close>. A \<open>str\<close> may hold a lone surrogate, a code point
  from D800 to DFFF (\<open>json.load\<close> returns one for the escape \<open>\ud800\<close>), and UTF-8
  has no encoding for it: writing such a string to the file raises UnicodeEncodeError.
\<close>

type_synonym pystr = "nat list"

definition encodable :: "pystr \<Rightarrow> bool" where
  "encodable s = list_all (\<lambda>c. c < 55296 \<or> 57343 < c) s"

definition ascii :: "string \<Rightarrow> pystr" where
  "ascii s = map of_char s"

text \<open>
  What stops a call before it returns. The first five are the Python exceptions that
  reach the code modelled here. \<open>Unmodelled\<close> is no exception: it marks an input on
  which the model does not follow Python (a value outside the typed record below, or a
  numeral syntax of \<open>int\<close> that \<open>bytes.hex\<close> never produces), so that nothing is
  claimed there.
\<close>

datatype abort =
  KeyError pystr | TypeError | ValueError | UnicodeDecodeError | UnicodeEncodeError | Unmodelled

section \<open>Record model: class Book\<close>

text \<open>
  The two status literals of the source, in Cyrillic there: \<open>v nalichii\<close> (in stock,
  the spec's \<open>available\<close>) and \<open>vydana\<close> (lent out, the spec's \<open>checked_out\<close>).
\<close>

definition available :: pystr where
  "available = [1074, 32, 1085, 1072, 1083, 1080, 1095, 1080, 1080]"

definition checked_out :: pystr where
  "checked_out = [1074, 1099, 1076, 1072, 1085, 1072]"

text \<open>
  The attributes of a \<open>Book\<close>, typed as the constructor annotates them. The attribute
  \<open>id\<close> is named \<open>id_attr\<close>, since \<open>id\<close> is the identity function of HOL. The status
  is a string, not an enumeration: loading keeps whatever string the file holds.
\<close>

record book =
  id_attr :: int
  title :: pystr
  author :: pystr
  year :: int
  status :: pystr

text \<open>The texts of a record can be written to a UTF-8 file.\<close>

definition book_encodable :: "book \<Rightarrow> bool" where
  "book_encodable b = (encodable (title b) \<and> encodable (author b) \<and> encodable (status b))"

subsection \<open>generate_unique_id: int(os.urandom(4).hex(), 16)\<close>

text \<open>\<open>bytes.hex()\<close>: two lower-case hexadecimal digits for each byte, high nibble first.\<close>

definition hex_digit :: "nat \<Rightarrow> nat" where
  "hex_digit d = (if d < 10 then 48 + d else 87 + d)"

definition hex :: "8 word list \<Rightarrow> pystr" where
  "hex bs = concat (map (\<lambda>b. [hex_digit (unat b div 16), hex_digit (unat b mod 16)]) bs)"

text \<open>
  \<open>int(s, 16)\<close> on a string of hexadecimal digits; the empty string raises ValueError.
  Python also accepts a sign, a \<open>0x\<close> prefix, underscores, blanks and non-ASCII digits
  and raises ValueError on the rest: a string with any character that is no ASCII
  hexadecimal digit is left \<open>Unmodelled\<close>.
\<close>

definition hex_val :: "nat \<Rightarrow> int option" where
  "hex_val c =
     (if 48 \<le> c \<and> c \<le> 57 then Some (int c - 48)
      else if 97 \<le> c \<and> c \<le> 102 then Some (int c - 87)
      else if 65 \<le> c \<and> c \<le> 70 then Some (int c - 55)
      else None)"

fun int16_from :: "int \<Rightarrow> pystr \<Rightarrow> abort + int" where
  "int16_from acc [] = Inr acc"
| "int16_from acc (c # cs) =
     (case hex_val c of None \<Rightarrow> Inl Unmodelled | Some d \<Rightarrow> int16_from (acc * 16 + d) cs)"

definition int16 :: "pystr \<Rightarrow> abort + int" where
  "int16 s = (if s = [] then Inl ValueError else int16_from 0 s)"

text \<open>
  The argument \<open>rnd\<close> is what \<open>os.urandom(4)\<close> returned: the entropy source is an
  input of the model, and its answer has four bytes.
\<close>

definition generate_unique_id :: "8 word list \<Rightarrow> abort + int" where
  "generate_unique_id rnd = int16 (hex rnd)"

text \<open>\<open>Book.__init__\<close>, with the attributes in the order the constructor assigns them.\<close>

definition Book :: "8 word list \<Rightarrow> pystr \<Rightarrow> pystr \<Rightarrow> int \<Rightarrow> abort + book" where
  "Book rnd t a y =
     (case generate_unique_id rnd of
        Inl e \<Rightarrow> Inl e
      | Inr i \<Rightarrow> Inr \<lparr>id_attr = i, title = t, author = a, year = y, status = available\<rparr>)"

text \<open>The value of a byte string read as a big-endian number.\<close>

fun be_value :: "8 word list \<Rightarrow> int" where
  "be_value [] = 0"
| "be_value (b # bs) = uint b * 256 ^ length bs + be_value bs"

subsection \<open>str(year)\<close>

text \<open>\<open>str\<close> of a Python \<open>int\<close>: decimal digits, a minus sign before a negative number.\<close>

fun digits :: "nat \<Rightarrow> pystr" where
  "digits n = (if n < 10 then [48 + n] else digits (n div 10) @ [48 + n mod 10])"

declare digits.simps [simp del]

definition str_int :: "int \<Rightarrow> pystr" where
  "str_int i = (if i < 0 then 45 # digits (nat (- i)) else digits (nat i))"

section \<open>The persisted file and the process environment\<close>

text \<open>
  The value \<open>json.load\<close> returns: \<open>None\<close>, a \<open>bool\<close>, an \<open>int\<close>, a \<open>str\<close>, a \<open>list\<close>
  or a \<open>dict\<close> with string keys, listed in insertion order, every key once. Floats are
  left out: no operation of the catalogue writes one.
\<close>

datatype json =
  JNull | JBool bool | JInt int | JStr pystr | JList "json list" | JDict "(pystr \<times> json) list"

text \<open>
  What a path holds, as \<open>open\<close> and \<open>json.load\<close> see it: a file that cannot be opened
  or read (IOError), bytes that are not UTF-8 (UnicodeDecodeError), text that is not
  JSON (JSONDecodeError), or a JSON document. \<open>json.load\<close> of what \<open>json.dump\<close> wrote
  is the value dumped: the file holds the value, not its text.
\<close>

datatype file_state = Unreadable | BadEncoding | NotJSON | Doc json

text \<open>
  What the file system does to a write at a path: nothing (the file can be opened and
  takes all that is written), \<open>open(..., 'w')\<close> raises IOError and the file stays as
  it was, or the file is opened (and so truncated) and the dump is ended by an IOError
  half way, which leaves a proper prefix of a JSON text.
\<close>

datatype write_fault = NoFault | OpenFault | DumpFault

text \<open>
  The two lines the store prints: on a failed load (\<open>Oshibka pri chtenii fajla.
  Sozdaetsya novaya biblioteka.\<close>) and on a failed save (\<open>Oshibka pri sohranenii knig.\<close>).
\<close>

datatype message = LoadFailed | SaveFailed

record world =
  files :: "pystr \<Rightarrow> file_state option"
  faults :: "pystr \<Rightarrow> write_fault"
  stdout :: "message list"

section \<open>Catalogue store: class LibraryManagementSystem\<close>

record lms =
  storage_file :: pystr
  books :: "book list"

subsection \<open>Loading\<close>

text \<open>\<open>for book in book_data\<close>: a list gives its elements, a dict its keys, a string
  its characters; nothing else can be iterated.\<close>

fun py_iter :: "json \<Rightarrow> abort + json list" where
  "py_iter (JList xs) = Inr xs"
| "py_iter (JDict kvs) = Inr (map (\<lambda>kv. JStr (fst kv)) kvs)"
| "py_iter (JStr s) = Inr (map (\<lambda>c. JStr [c]) s)"
| "py_iter JNull = Inl TypeError"
| "py_iter (JBool b) = Inl TypeError"
| "py_iter (JInt n) = Inl TypeError"

text \<open>\<open>book_dict[key]\<close> with a string key: KeyError on a dict without the key,
  TypeError on everything that is no dict.\<close>

fun getitem :: "json \<Rightarrow> pystr \<Rightarrow> abort + json" where
  "getitem (JDict kvs) k = (case map_of kvs k of None \<Rightarrow> Inl (KeyError k) | Some v \<Rightarrow> Inr v)"
| "getitem JNull k = Inl TypeError"
| "getitem (JBool b) k = Inl TypeError"
| "getitem (JInt n) k = Inl TypeError"
| "getitem (JStr s) k = Inl TypeError"
| "getitem (JList xs) k = Inl TypeError"

text \<open>
  The five values read from the file become the attributes as they are, with no
  validation. Values of the annotated types give a record; any other value is kept by
  Python too, but lies outside the record type: \<open>Unmodelled\<close>.
\<close>

definition typed_book :: "json \<Rightarrow> json \<Rightarrow> json \<Rightarrow> json \<Rightarrow> json \<Rightarrow> abort + book" where
  "typed_book i t a y st =
     (case i of JInt i' \<Rightarrow>
        (case t of JStr t' \<Rightarrow>
           (case a of JStr a' \<Rightarrow>
              (case y of JInt y' \<Rightarrow>
                 (case st of JStr st' \<Rightarrow>
                    Inr \<lparr>id_attr = i', title = t', author = a', year = y', status = st'\<rparr>
                  | _ \<Rightarrow> Inl Unmodelled)
               | _ \<Rightarrow> Inl Unmodelled)
            | _ \<Rightarrow> Inl Unmodelled)
         | _ \<Rightarrow> Inl Unmodelled)
      | _ \<Rightarrow> Inl Unmodelled)"

text \<open>
  \<open>_dict_to_book\<close>: the keys are read in the order of the source, \<open>title\<close>, \<open>author\<close>
  and \<open>year\<close> for the constructor, then \<open>id\<close> and \<open>status\<close>. The identifier the
  constructor generates in between is overwritten at once and drawn from four bytes, on
  which generation does not fail: it is left out.
\<close>

definition dict_to_book :: "json \<Rightarrow> abort + book" where
  "dict_to_book book_dict =
     (case getitem book_dict (ascii ''title'') of Inl e \<Rightarrow> Inl e | Inr t \<Rightarrow>
      case getitem book_dict (ascii ''author'') of Inl e \<Rightarrow> Inl e | Inr a \<Rightarrow>
      case getitem book_dict (ascii ''year'') of Inl e \<Rightarrow> Inl e | Inr y \<Rightarrow>
      case getitem book_dict (ascii ''id'') of Inl e \<Rightarrow> Inl e | Inr i \<Rightarrow>
      case getitem book_dict (ascii ''status'') of Inl e \<Rightarrow> Inl e | Inr st \<Rightarrow>
      typed_book i t a y st)"

text \<open>A list comprehension over a function that may raise: the first failure ends it.\<close>

fun map_abort :: "('a \<Rightarrow> abort + 'b) \<Rightarrow> 'a list \<Rightarrow> abort + 'b list" where
  "map_abort f [] = Inr []"
| "map_abort f (x # xs) =
     (case f x of
        Inl e \<Rightarrow> Inl e
      | Inr y \<Rightarrow> (case map_abort f xs of Inl e \<Rightarrow> Inl e | Inr ys \<Rightarrow> Inr (y # ys)))"

text \<open>
  \<open>load_books\<close>. The handler catches \<open>json.JSONDecodeError\<close> and \<open>IOError\<close> only:
  UnicodeDecodeError from reading, and TypeError and KeyError from the comprehension
  inside the \<open>try\<close>, leave the method.
\<close>

definition load_books :: "pystr \<Rightarrow> world \<Rightarrow> abort + (book list \<times> world)" where
  "load_books path w =
     (case files w path of
        None \<Rightarrow> Inr ([], w)
      | Some Unreadable \<Rightarrow> Inr ([], w\<lparr>stdout := stdout w @ [LoadFailed]\<rparr>)
      | Some BadEncoding \<Rightarrow> Inl UnicodeDecodeError
      | Some NotJSON \<Rightarrow> Inr ([], w\<lparr>stdout := stdout w @ [LoadFailed]\<rparr>)
      | Some (Doc book_data) \<Rightarrow>
          (case py_iter book_data of
             Inl e \<Rightarrow> Inl e
           | Inr items \<Rightarrow>
               (case map_abort dict_to_book items of
                  Inl e \<Rightarrow> Inl e
                | Inr bs \<Rightarrow> Inr (bs, w))))"

text \<open>The constructor \<open>LibraryManagementSystem(storage_file)\<close>.\<close>

definition LibraryManagementSystem :: "pystr \<Rightarrow> world \<Rightarrow> abort + (lms \<times> world)" where
  "LibraryManagementSystem path w =
     (case load_books path w of
        Inl e \<Rightarrow> Inl e
      | Inr (bs, w') \<Rightarrow> Inr (\<lparr>storage_file = path, books = bs\<rparr>, w'))"

subsection \<open>Saving\<close>

text \<open>\<open>book.__dict__\<close>: the attributes in the order of their first assignment.\<close>

definition book_dict :: "book \<Rightarrow> json" where
  "book_dict b =
     JDict [(ascii ''id'', JInt (id_attr b)), (ascii ''title'', JStr (title b)),
            (ascii ''author'', JStr (author b)), (ascii ''year'', JInt (year b)),
            (ascii ''status'', JStr (status b))]"

text \<open>
  \<open>save_books\<close> has no \<open>return\<close>: it gives its caller \<open>None\<close> (here \<open>()\<close>). Its
  handler catches IOError only, prints and goes on. Where the file system lets the
  write through, \<open>json.dump\<close> with \<open>ensure_ascii=False\<close> still raises
  UnicodeEncodeError at the first text it cannot encode: that exception leaves
  \<open>save_books\<close>, nothing is printed, and the file, opened and so truncated, is left
  with a proper prefix of a JSON text. The store and the world after the call are
  returned in every case, also beside an exception.
\<close>

definition save_books :: "lms \<Rightarrow> world \<Rightarrow> (abort + unit) \<times> lms \<times> world" where
  "save_books s w =
     (case faults w (storage_file s) of
        NoFault \<Rightarrow>
          (if list_all book_encodable (books s)
           then (Inr (), s,
                 w\<lparr>files := (files w)(storage_file s \<mapsto> Doc (JList (map book_dict (books s))))\<rparr>)
           else (Inl UnicodeEncodeError, s,
                 w\<lparr>files := (files w)(storage_file s \<mapsto> NotJSON)\<rparr>))
      | OpenFault \<Rightarrow>
          (Inr (), s, w\<lparr>stdout := stdout w @ [SaveFailed]\<rparr>)
      | DumpFault \<Rightarrow>
          (Inr (), s, w\<lparr>files := (files w)(storage_file s \<mapsto> NotJSON),
                      stdout := stdout w @ [SaveFailed]\<rparr>))"

subsection \<open>Operations\<close>

text \<open>
  Every operation returns what its caller gets, a value or the exception that left
  it, with the store and the world after it: an exception from \<open>save_books\<close> comes
  after the change in memory, which stays.
\<close>

text \<open>\<open>add_book\<close>; \<open>rnd\<close> is what \<open>os.urandom(4)\<close> gives the constructor.\<close>

definition add_book ::
  "8 word list \<Rightarrow> pystr \<Rightarrow> pystr \<Rightarrow> int \<Rightarrow> lms \<Rightarrow> world \<Rightarrow> (abort + book) \<times> lms \<times> world" where
  "add_book rnd t a y s w =
     (case Book rnd t a y of
        Inl e \<Rightarrow> (Inl e, s, w)
      | Inr new_book \<Rightarrow>
          (case save_books (s\<lparr>books := books s @ [new_book]\<rparr>) w of
             (Inl e, s', w') \<Rightarrow> (Inl e, s', w')
           | (Inr _, s', w') \<Rightarrow> (Inr new_book, s', w')))"

definition remove_book :: "int \<Rightarrow> lms \<Rightarrow> world \<Rightarrow> (abort + bool) \<times> lms \<times> world" where
  "remove_book book_id s w =
     (let initial_length = length (books s);
          s1 = s\<lparr>books := filter (\<lambda>book. id_attr book \<noteq> book_id) (books s)\<rparr>
      in if length (books s1) < initial_length
         then (case save_books s1 w of
                 (Inl e, s', w') \<Rightarrow> (Inl e, s', w')
               | (Inr _, s', w') \<Rightarrow> (Inr True, s', w'))
         else (Inr False, s1, w))"

text \<open>
  \<open>search_books\<close>. \<open>str.lower\<close> is the Unicode case mapping of the Python library
  and a parameter here; the query is lowered before the search type is looked at.
\<close>

definition search_books :: "(pystr \<Rightarrow> pystr) \<Rightarrow> pystr \<Rightarrow> pystr \<Rightarrow> lms \<Rightarrow> book list" where
  "search_books lower query search_type s =
     (let query = lower query
      in if search_type = ascii ''title''
           then filter (\<lambda>book. sublist query (lower (title book))) (books s)
         else if search_type = ascii ''author''
           then filter (\<lambda>book. sublist query (lower (author book))) (books s)
         else if search_type = ascii ''year''
           then filter (\<lambda>book. query = str_int (year book)) (books s)
         else [])"

text \<open>The loop of \<open>update_book_status\<close>: the first book with the identifier gets the
  status and the loop is left; \<open>None\<close> when the loop runs to its end.\<close>

fun set_first_status :: "int \<Rightarrow> pystr \<Rightarrow> book list \<Rightarrow> book list option" where
  "set_first_status book_id new_status [] = None"
| "set_first_status book_id new_status (book # rest) =
     (if id_attr book = book_id then Some (book\<lparr>status := new_status\<rparr> # rest)
      else map_option ((#) book) (set_first_status book_id new_status rest))"

definition update_book_status ::
  "int \<Rightarrow> pystr \<Rightarrow> lms \<Rightarrow> world \<Rightarrow> (abort + bool) \<times> lms \<times> world" where
  "update_book_status book_id new_status s w =
     (if new_status \<notin> set [available, checked_out] then (Inr False, s, w)
      else (case set_first_status book_id new_status (books s) of
              None \<Rightarrow> (Inr False, s, w)
            | Some bs \<Rightarrow>
                (case save_books (s\<lparr>books := bs\<rparr>) w of
                   (Inl e, s', w') \<Rightarrow> (Inl e, s', w')
                 | (Inr _, s', w') \<Rightarrow> (Inr True, s', w'))))"

section \<open>Notions of the specification\<close>

text \<open>Removing the first record with an identifier, and no other.\<close>

fun remove_first_match :: "int \<Rightarrow> book list \<Rightarrow> book list" where
  "remove_first_match i [] = []"
| "remove_first_match i (b # bs) = (if id_attr b = i then bs else b # remove_first_match i bs)"

text \<open>A text contains a query as a case-insensitive substring: brought to lower case,
  the query occurs in the text.\<close>

definition contains_ignoring_case :: "(pystr \<Rightarrow> pystr) \<Rightarrow> pystr \<Rightarrow> pystr \<Rightarrow> bool" where
  "contains_ignoring_case lower q t = (\<exists>ps ss. lower t = ps @ lower q @ ss)"

text \<open>A case mapping leaves numerals alone: what it maps to the text of an integer is
  that text, and it keeps that text.\<close>

definition keeps_numerals :: "(pystr \<Rightarrow> pystr) \<Rightarrow> bool" where
  "keeps_numerals lower = (\<forall>q n. (lower q = str_int n) = (q = str_int n))"

text \<open>\<open>str.lower\<close> on ASCII text, where it moves \<open>A\<close> to \<open>Z\<close> only.\<close>

definition ascii_lower :: "pystr \<Rightarrow> pystr" where
  "ascii_lower s = map (\<lambda>c. if 65 \<le> c \<and> c \<le> 90 then c + 32 else c) s"

text \<open>An environment with no file, where every write succeeds and nothing was printed.\<close>

definition empty_world :: world where
  "empty_world = \<lparr>files = (\<lambda>p. None), faults = (\<lambda>p. NoFault), stdout = []\<rparr>"

text \<open>Sample records and stores for the concrete instances below.\<close>

definition example_book :: "int \<Rightarrow> pystr \<Rightarrow> int \<Rightarrow> book" where
  "example_book i t y = \<lparr>id_attr = i, title = t, author = ascii ''Herbert'', year = y, status = available\<rparr>"

definition example_store :: "book list \<Rightarrow> lms" where
  "example_store bs = \<lparr>storage_file = ascii ''library_books.json'', books = bs\<rparr>"

text \<open>An environment with no file, where no file can be opened for writing.\<close>

definition failing_world :: world where
  "failing_world = \<lparr>files = (\<lambda>p. None), faults = (\<lambda>p. OpenFault), stdout = []\<rparr>"

section \<open>Properties\<close>

subsection \<open>Identifier generation\<close>

lemma hex_val_hex_digit: "d < 16 \<Longrightarrow> hex_val (hex_digit d) = Some (int d)"
  by (auto simp: hex_val_def hex_digit_def)

lemma unat_byte_nibbles: "unat (b :: 8 word) div 16 < 16"
proof -
  have "unat b < 2 ^ LENGTH(8)" by (rule unsigned_less)
  then show ?thesis by simp
qed

lemma int16_from_hex:
  "int16_from acc (hex bs) = Inr (acc * 256 ^ length bs + be_value bs)"
proof (induction bs arbitrary: acc)
  case Nil
  show ?case by (simp add: hex_def)
next
  case (Cons b bs)
  have tl: "hex (b # bs) = hex_digit (unat b div 16) # hex_digit (unat b mod 16) # hex bs"
    by (simp add: hex_def)
  have hi: "hex_val (hex_digit (unat b div 16)) = Some (int (unat b div 16))"
    by (rule hex_val_hex_digit) (rule unat_byte_nibbles)
  have lo: "hex_val (hex_digit (unat b mod 16)) = Some (int (unat b mod 16))"
    by (rule hex_val_hex_digit) simp
  have split: "int (unat b div 16) * 16 + int (unat b mod 16) = uint b"
    by (simp add: zdiv_int zmod_int flip: of_nat_mult of_nat_add)
  have "int16_from acc (hex (b # bs)) =
        int16_from ((acc * 16 + int (unat b div 16)) * 16 + int (unat b mod 16)) (hex bs)"
    by (simp add: tl hi lo)
  also have "\<dots> = Inr (((acc * 16 + int (unat b div 16)) * 16 + int (unat b mod 16))
                      * 256 ^ length bs + be_value bs)"
    by (rule Cons.IH)
  also have "((acc * 16 + int (unat b div 16)) * 16 + int (unat b mod 16))
             = acc * 256 + uint b"
    using split by (simp add: algebra_simps)
  finally show ?case by (simp add: algebra_simps)
qed

lemma be_value_bounds: "0 \<le> be_value bs \<and> be_value bs < 256 ^ length bs"
proof (induction bs)
  case Nil
  show ?case by simp
next
  case (Cons b bs)
  have b: "0 \<le> uint b" "uint b \<le> 255"
    using uint_bounded [of b] by simp_all
  have "uint b * 256 ^ length bs \<le> 255 * 256 ^ length bs"
    using b by (simp add: mult_right_mono)
  moreover have "0 \<le> uint b * 256 ^ length bs"
    using b by simp
  moreover have "(256::int) ^ length (b # bs) = 255 * 256 ^ length bs + 256 ^ length bs"
    by simp
  ultimately show ?case
    using Cons by (simp only: be_value.simps) linarith
qed

lemma hex_empty_iff: "hex bs = [] \<longleftrightarrow> bs = []"
  by (cases bs) (simp_all add: hex_def)

lemma generate_unique_id_value:
  "bs \<noteq> [] \<Longrightarrow> generate_unique_id bs = Inr (be_value bs)"
  by (simp add: generate_unique_id_def int16_def hex_empty_iff int16_from_hex)

text \<open>Every integer from 0 to \<open>2^32 - 1\<close> is the identifier of some four bytes.\<close>

lemma generate_unique_id_onto:
  assumes "0 \<le> n" and "n < 2 ^ 32"
  shows "\<exists>rnd. length rnd = 4 \<and> generate_unique_id rnd = Inr n"
proof -
  define q1 where "q1 = n div 256"
  define q2 where "q2 = q1 div 256"
  define q3 where "q3 = q2 div 256"
  let ?rnd = "[word_of_int q3, word_of_int q2, word_of_int q1, word_of_int n] :: 8 word list"
  have u: "\<And>x. uint (word_of_int x :: 8 word) = x mod 256"
    by (simp add: uint_word_of_int)
  have e0: "n = q1 * 256 + n mod 256" by (simp add: q1_def)
  have e1: "q1 = q2 * 256 + q1 mod 256" by (simp add: q2_def)
  have e2: "q2 = q3 * 256 + q2 mod 256" by (simp add: q3_def)
  have "q1 < 16777216" using assms by (simp add: q1_def)
  then have "q2 < 65536" by (simp add: q2_def)
  then have "q3 < 256" by (simp add: q3_def)
  moreover have "0 \<le> q3" using assms by (simp add: q3_def q2_def q1_def)
  ultimately have e3: "q3 mod 256 = q3" by simp
  have "be_value ?rnd = q3 mod 256 * 16777216 + q2 mod 256 * 65536 + q1 mod 256 * 256 + n mod 256"
    by (simp add: u)
  also have "\<dots> = ((q3 * 256 + q2 mod 256) * 256 + q1 mod 256) * 256 + n mod 256"
    by (simp add: e3 algebra_simps)
  also have "\<dots> = n"
    using e0 e1 e2 by simp
  finally have "be_value ?rnd = n" .
  moreover have "generate_unique_id ?rnd = Inr (be_value ?rnd)"
    by (rule generate_unique_id_value) simp
  ultimately have "length ?rnd = 4 \<and> generate_unique_id ?rnd = Inr n" by simp
  then show ?thesis by blast
qed

text \<open>
  C9. For every four bytes drawn from the entropy source, generating an identifier
  raises nothing and yields the big-endian value of the bytes, to which each of the
  four bytes contributes its eight bits: an integer with \<open>0 \<le> id < 2^32\<close>. The record
  created from the bytes carries that identifier.
\<close>

theorem generate_unique_id_range:
  assumes "length rnd = 4"
  shows "generate_unique_id rnd = Inr (be_value rnd)
         \<and> be_value rnd = uint (rnd ! 0) * 2 ^ 24 + uint (rnd ! 1) * 2 ^ 16
                            + uint (rnd ! 2) * 2 ^ 8 + uint (rnd ! 3)
         \<and> 0 \<le> be_value rnd \<and> be_value rnd < 2 ^ 32
         \<and> Book rnd t a y
             = Inr \<lparr>id_attr = be_value rnd, title = t, author = a, year = y, status = available\<rparr>"
proof -
  from assms have ne: "rnd \<noteq> []" by auto
  have v: "generate_unique_id rnd = Inr (be_value rnd)"
    by (rule generate_unique_id_value [OF ne])
  from assms obtain b0 b1 b2 b3 where rnd: "rnd = [b0, b1, b2, b3]"
    by (auto simp: length_Suc_conv numeral_eq_Suc)
  have f: "be_value rnd = uint (rnd ! 0) * 2 ^ 24 + uint (rnd ! 1) * 2 ^ 16
                            + uint (rnd ! 2) * 2 ^ 8 + uint (rnd ! 3)"
    by (simp add: rnd)
  have "0 \<le> be_value rnd \<and> be_value rnd < 256 ^ length rnd"
    by (rule be_value_bounds)
  with assms have r: "0 \<le> be_value rnd" "be_value rnd < 2 ^ 32" by simp_all
  have bk: "Book rnd t a y
             = Inr \<lparr>id_attr = be_value rnd, title = t, author = a, year = y, status = available\<rparr>"
    by (simp add: Book_def v)
  from v f r bk show ?thesis by blast
qed

theorem generate_unique_id_range_witness:
  "length [0xDE, 0xAD, 0xBE, 0xEF :: 8 word] = 4
   \<and> be_value [0xDE, 0xAD, 0xBE, 0xEF] = 3735928559
   \<and> generate_unique_id [0xDE, 0xAD, 0xBE, 0xEF] = Inr 3735928559
   \<and> Book [0xDE, 0xAD, 0xBE, 0xEF] [] [] 0
       = Inr \<lparr>id_attr = 3735928559, title = [], author = [], year = 0, status = available\<rparr>"
proof -
  have len: "length [0xDE, 0xAD, 0xBE, 0xEF :: 8 word] = 4" by simp
  have val: "be_value [0xDE, 0xAD, 0xBE, 0xEF] = 3735928559" by simp
  show ?thesis
    using len val generate_unique_id_range [OF len, of "[]" "[]" 0] by simp
qed

subsection \<open>Saving and loading\<close>

lemma encodable_status: "encodable available" "encodable checked_out"
  by (simp_all add: encodable_def available_def checked_out_def)

lemma dict_to_book_book_dict: "dict_to_book (book_dict b) = Inr b"
  by (simp add: dict_to_book_def book_dict_def typed_book_def ascii_def)

lemma map_abort_roundtrip: "map_abort dict_to_book (map book_dict bs) = Inr bs"
  by (induction bs) (simp_all add: dict_to_book_book_dict)

lemma save_books_store: "fst (snd (save_books s w)) = s"
  by (simp add: save_books_def split: write_fault.split)

lemma save_books_returns:
  "list_all book_encodable (books s) \<Longrightarrow> fst (save_books s w) = Inr ()"
  by (simp add: save_books_def split: write_fault.split)

lemma save_books_result:
  "list_all book_encodable (books s) \<Longrightarrow>
   save_books s w = (Inr (), s, snd (snd (save_books s w)))"
  using save_books_store [of s w] save_books_returns [of s w]
  by (cases "save_books s w") simp

lemma save_books_NoFault:
  "faults w (storage_file s) = NoFault \<Longrightarrow> list_all book_encodable (books s) \<Longrightarrow>
   save_books s w
     = (Inr (), s, w\<lparr>files := (files w)(storage_file s \<mapsto> Doc (JList (map book_dict (books s))))\<rparr>)"
  by (simp add: save_books_def)

text \<open>
  Where a text of the collection cannot be encoded, the save is left by the exception
  and the file it truncated no longer loads: the next load prints its warning and
  starts empty.
\<close>

lemma save_books_unencodable:
  assumes "faults w (storage_file s) = NoFault" and "\<not> list_all book_encodable (books s)"
  shows "fst (save_books s w) = Inl UnicodeEncodeError"
    and "fst (snd (save_books s w)) = s"
    and "stdout (snd (snd (save_books s w))) = stdout w"
    and "map_sum id fst (load_books (storage_file s) (snd (snd (save_books s w)))) = Inr []"
  using assms by (simp_all add: save_books_def load_books_def)

text \<open>
  C3. After a save of a collection whose texts can be encoded, with a write that
  succeeds, the save returns and loading from the same location gives back the
  collection as it was saved: the same records with all five attributes, in the same
  order, with nothing printed; a fresh store constructed on that location equals the
  store that saved.
\<close>

theorem save_then_load_roundtrip:
  assumes "faults w (storage_file s) = NoFault"
    and "list_all book_encodable (books s)"
  shows "fst (save_books s w) = Inr ()
         \<and> load_books (storage_file s) (snd (snd (save_books s w)))
           = Inr (books s, snd (snd (save_books s w)))
         \<and> LibraryManagementSystem (storage_file s) (snd (snd (save_books s w)))
           = Inr (s, snd (snd (save_books s w)))
         \<and> fst (snd (save_books s w)) = s"
proof -
  let ?w = "w\<lparr>files := (files w)(storage_file s \<mapsto> Doc (JList (map book_dict (books s))))\<rparr>"
  have sv: "save_books s w = (Inr (), s, ?w)"
    by (rule save_books_NoFault [OF assms])
  have ld: "load_books (storage_file s) ?w = Inr (books s, ?w)"
    by (simp add: load_books_def map_abort_roundtrip)
  have "LibraryManagementSystem (storage_file s) ?w = Inr (s, ?w)"
    by (simp add: LibraryManagementSystem_def ld)
  with ld sv show ?thesis by simp
qed

theorem save_then_load_roundtrip_witness:
  "faults empty_world (storage_file (example_store [example_book 7 (ascii ''Dune'') 1965, example_book 8 (ascii ''Emma'') 1815])) = NoFault
   \<and> list_all book_encodable (books (example_store [example_book 7 (ascii ''Dune'') 1965, example_book 8 (ascii ''Emma'') 1815]))
   \<and> load_books (ascii ''library_books.json'') (snd (snd (save_books (example_store [example_book 7 (ascii ''Dune'') 1965, example_book 8 (ascii ''Emma'') 1815]) empty_world)))
      = Inr ([example_book 7 (ascii ''Dune'') 1965, example_book 8 (ascii ''Emma'') 1815],
             snd (snd (save_books (example_store [example_book 7 (ascii ''Dune'') 1965, example_book 8 (ascii ''Emma'') 1815]) empty_world)))"
proof -
  have h: "faults empty_world (storage_file (example_store [example_book 7 (ascii ''Dune'') 1965, example_book 8 (ascii ''Emma'') 1815])) = NoFault"
    by (simp add: empty_world_def)
  have e: "list_all book_encodable (books (example_store [example_book 7 (ascii ''Dune'') 1965, example_book 8 (ascii ''Emma'') 1815]))"
    by (simp add: example_store_def example_book_def book_encodable_def encodable_def
        ascii_def available_def)
  show ?thesis
    using h e save_then_load_roundtrip [OF h e] by (simp add: example_store_def)
qed

subsection \<open>Removing\<close>

lemma filter_no_match: "(\<forall>b\<in>set bs. id_attr b \<noteq> i) \<Longrightarrow> filter (\<lambda>b. id_attr b \<noteq> i) bs = bs"
  by (induction bs) auto

lemma filter_shorter:
  "length (filter (\<lambda>b. id_attr b \<noteq> i) bs) < length bs \<longleftrightarrow> (\<exists>b\<in>set bs. id_attr b = i)"
proof
  assume "length (filter (\<lambda>b. id_attr b \<noteq> i) bs) < length bs"
  then have "filter (\<lambda>b. id_attr b \<noteq> i) bs \<noteq> bs" by auto
  then show "\<exists>b\<in>set bs. id_attr b = i" using filter_no_match by blast
next
  assume "\<exists>b\<in>set bs. id_attr b = i"
  then obtain b where "b \<in> set bs" "\<not> id_attr b \<noteq> i" by auto
  then show "length (filter (\<lambda>b. id_attr b \<noteq> i) bs) < length bs"
    by (rule length_filter_less)
qed

lemma filter_distinct_remove_first:
  "distinct (map id_attr bs) \<Longrightarrow> filter (\<lambda>b. id_attr b \<noteq> i) bs = remove_first_match i bs"
proof (induction bs)
  case Nil
  show ?case by simp
next
  case (Cons b bs)
  show ?case
  proof (cases "id_attr b = i")
    case True
    from Cons.prems have "id_attr b \<notin> id_attr ` set bs" by simp
    with True have "\<forall>x\<in>set bs. id_attr x \<noteq> i" by blast
    then have "filter (\<lambda>b. id_attr b \<noteq> i) bs = bs" by (rule filter_no_match)
    with True show ?thesis by simp
  next
    case False
    with Cons show ?thesis by simp
  qed
qed

text \<open>
  C1, as amended. \<open>remove_book\<close> drops every record whose identifier equals the
  given one, keeping the others in order. If there was such a record, and the texts
  of the records that stay can be encoded, it saves the shortened collection and
  answers \<open>True\<close>; if there was none it answers \<open>False\<close>, saves nothing and leaves
  store and environment as they were. Where the identifiers of the collection are
  distinct, what it drops is the first match and nothing else.
\<close>

theorem remove_book_removes_matches:
  "((\<exists>b\<in>set (books s). id_attr b = i)
      \<and> list_all book_encodable (filter (\<lambda>b. id_attr b \<noteq> i) (books s)) \<longrightarrow>
      remove_book i s w
        = (Inr True, s\<lparr>books := filter (\<lambda>b. id_attr b \<noteq> i) (books s)\<rparr>,
           snd (snd (save_books (s\<lparr>books := filter (\<lambda>b. id_attr b \<noteq> i) (books s)\<rparr>) w))))
   \<and> ((\<forall>b\<in>set (books s). id_attr b \<noteq> i) \<longrightarrow> remove_book i s w = (Inr False, s, w))
   \<and> (distinct (map id_attr (books s)) \<longrightarrow>
        filter (\<lambda>b. id_attr b \<noteq> i) (books s) = remove_first_match i (books s))"
proof (intro conjI impI)
  let ?s1 = "s\<lparr>books := filter (\<lambda>b. id_attr b \<noteq> i) (books s)\<rparr>"
  assume h: "(\<exists>b\<in>set (books s). id_attr b = i)
      \<and> list_all book_encodable (filter (\<lambda>b. id_attr b \<noteq> i) (books s))"
  then have "list_all book_encodable (books ?s1)" by simp
  then have sv: "save_books ?s1 w = (Inr (), ?s1, snd (snd (save_books ?s1 w)))"
    by (rule save_books_result)
  from h have "length (books ?s1) < length (books s)" by (simp add: filter_shorter)
  then have "remove_book i s w =
      (case save_books ?s1 w of
         (Inl e, s', w') \<Rightarrow> (Inl e, s', w')
       | (Inr _, s', w') \<Rightarrow> (Inr True, s', w'))"
    by (simp add: remove_book_def Let_def)
  also have "\<dots> = (Inr True, ?s1, snd (snd (save_books ?s1 w)))"
    by (subst sv) simp
  finally show "remove_book i s w = (Inr True, ?s1, snd (snd (save_books ?s1 w)))" .
next
  assume none: "\<forall>b\<in>set (books s). id_attr b \<noteq> i"
  then have "filter (\<lambda>b. id_attr b \<noteq> i) (books s) = books s"
    by (rule filter_no_match)
  then show "remove_book i s w = (Inr False, s, w)"
    by (simp add: remove_book_def Let_def)
next
  assume "distinct (map id_attr (books s))"
  then show "filter (\<lambda>b. id_attr b \<noteq> i) (books s) = remove_first_match i (books s)"
    by (rule filter_distinct_remove_first)
qed

theorem remove_book_removes_matches_witness:
  "(\<exists>b\<in>set (books (example_store [example_book 7 (ascii ''Dune'') 1965, example_book 8 (ascii ''Emma'') 1815])). id_attr b = 7)
   \<and> list_all book_encodable (filter (\<lambda>b. id_attr b \<noteq> 7) (books (example_store [example_book 7 (ascii ''Dune'') 1965, example_book 8 (ascii ''Emma'') 1815])))
   \<and> distinct (map id_attr (books (example_store [example_book 7 (ascii ''Dune'') 1965, example_book 8 (ascii ''Emma'') 1815])))
   \<and> fst (remove_book 7 (example_store [example_book 7 (ascii ''Dune'') 1965, example_book 8 (ascii ''Emma'') 1815]) empty_world) = Inr True
   \<and> books (fst (snd (remove_book 7 (example_store [example_book 7 (ascii ''Dune'') 1965, example_book 8 (ascii ''Emma'') 1815]) empty_world))) = [example_book 8 (ascii ''Emma'') 1815]
   \<and> remove_first_match 7 [example_book 7 (ascii ''Dune'') 1965, example_book 8 (ascii ''Emma'') 1815]
       = [example_book 8 (ascii ''Emma'') 1815]
   \<and> remove_book 8 (example_store [example_book 7 (ascii ''Dune'') 1965]) empty_world = (Inr False, example_store [example_book 7 (ascii ''Dune'') 1965], empty_world)"
  using remove_book_removes_matches [of "example_store [example_book 7 (ascii ''Dune'') 1965, example_book 8 (ascii ''Emma'') 1815]" 7 empty_world]
    remove_book_removes_matches [of "example_store [example_book 7 (ascii ''Dune'') 1965]" 8 empty_world]
  by (simp add: example_store_def example_book_def book_encodable_def encodable_def
      ascii_def available_def)

text \<open>
  C1 as stated fails on a collection with two records of identifier 7: removing the
  first match only would keep the second, and \<open>remove_book\<close> leaves none.
\<close>

theorem remove_book_first_only_counterexample:
  "books (fst (snd (remove_book 7 (example_store [example_book 7 (ascii ''Dune'') 1965, example_book 7 (ascii ''Emma'') 1815]) empty_world)))
     \<noteq> remove_first_match 7 (books (example_store [example_book 7 (ascii ''Dune'') 1965, example_book 7 (ascii ''Emma'') 1815]))"
  by (simp add: remove_book_def save_books_def example_store_def example_book_def empty_world_def Let_def)

subsection \<open>Loading what is not a catalogue\<close>

lemma load_books_missing:
  "files w path = None \<Longrightarrow> load_books path w = Inr ([], w)"
  by (simp add: load_books_def)

lemma load_books_discards:
  "files w path = Some NotJSON \<or> files w path = Some Unreadable \<Longrightarrow>
   LibraryManagementSystem path w
     = Inr (\<lparr>storage_file = path, books = []\<rparr>, w\<lparr>stdout := stdout w @ [LoadFailed]\<rparr>)"
  by (auto simp: LibraryManagementSystem_def load_books_def)

text \<open>
  C2 fails on the code. A file holding the JSON text \<open>[{}]\<close>, a list with one record
  that lacks its fields, is well-formed JSON and malformed as a catalogue: the
  constructor does not start with an empty collection, it is left by the KeyError for
  \<open>title\<close>, which the handler of \<open>load_books\<close> does not catch.
\<close>

theorem constructor_fails_on_record_without_fields:
  "LibraryManagementSystem path (w\<lparr>files := (files w)(path \<mapsto> Doc (JList [JDict []]))\<rparr>)
     = Inl (KeyError (ascii ''title''))"
  by (simp add: LibraryManagementSystem_def load_books_def dict_to_book_def)

lemma constructor_fails_on_other_shapes:
  "LibraryManagementSystem path (w\<lparr>files := (files w)(path \<mapsto> Doc (JInt 5))\<rparr>) = Inl TypeError"
  "LibraryManagementSystem path (w\<lparr>files := (files w)(path \<mapsto> Doc (JList [JInt 5]))\<rparr>) = Inl TypeError"
  "LibraryManagementSystem path (w\<lparr>files := (files w)(path \<mapsto> BadEncoding)\<rparr>) = Inl UnicodeDecodeError"
  by (simp_all add: LibraryManagementSystem_def load_books_def dict_to_book_def)

subsection \<open>Updating the status\<close>

text \<open>
  C4. With a new status that is neither of the two status values,
  \<open>update_book_status\<close> answers \<open>False\<close> and gives back the store, with every record
  and its status, and the environment, with the file and the output, as they were.
\<close>

theorem update_rejects_unknown_status:
  assumes "new_status \<noteq> available" and "new_status \<noteq> checked_out"
  shows "update_book_status i new_status s w = (Inr False, s, w)"
  using assms by (simp add: update_book_status_def)

theorem update_rejects_unknown_status_witness:
  "ascii ''lost'' \<noteq> available \<and> ascii ''lost'' \<noteq> checked_out
   \<and> update_book_status 7 (ascii ''lost'') (example_store [example_book 7 (ascii ''Dune'') 1965]) empty_world = (Inr False, example_store [example_book 7 (ascii ''Dune'') 1965], empty_world)"
proof -
  have a: "ascii ''lost'' \<noteq> available" by (simp add: ascii_def available_def)
  have b: "ascii ''lost'' \<noteq> checked_out" by (simp add: ascii_def checked_out_def)
  show ?thesis
    using a b update_rejects_unknown_status [OF a b] by simp
qed

lemma set_first_status_first:
  "\<forall>x\<in>set pre. id_attr x \<noteq> i \<Longrightarrow> id_attr b = i \<Longrightarrow>
   set_first_status i st (pre @ b # post) = Some (pre @ b\<lparr>status := st\<rparr> # post)"
  by (induction pre) simp_all

lemma set_first_status_none:
  "\<forall>x\<in>set bs. id_attr x \<noteq> i \<Longrightarrow> set_first_status i st bs = None"
  by (induction bs) simp_all

text \<open>
  C10. With one of the two status values, and a collection whose first record with
  the identifier is \<open>b\<close>, after the records \<open>pre\<close> and before the records \<open>post\<close>,
  \<open>update_book_status\<close> changes the status of \<open>b\<close> alone: \<open>pre\<close>, the other
  attributes of \<open>b\<close>, and \<open>post\<close>, where more records may carry the same identifier,
  are as before. The texts of the changed collection being encodable, it saves the
  collection and answers \<open>True\<close>.
\<close>

theorem update_changes_first_match_only:
  assumes "new_status = available \<or> new_status = checked_out"
    and "books s = pre @ b # post"
    and "\<forall>x\<in>set pre. id_attr x \<noteq> i"
    and "id_attr b = i"
    and "list_all book_encodable (pre @ b\<lparr>status := new_status\<rparr> # post)"
  shows "update_book_status i new_status s w
           = (Inr True, s\<lparr>books := pre @ b\<lparr>status := new_status\<rparr> # post\<rparr>,
              snd (snd (save_books (s\<lparr>books := pre @ b\<lparr>status := new_status\<rparr> # post\<rparr>) w)))"
proof -
  let ?s1 = "s\<lparr>books := pre @ b\<lparr>status := new_status\<rparr> # post\<rparr>"
  from assms(5) have "list_all book_encodable (books ?s1)" by simp
  then have sv: "save_books ?s1 w = (Inr (), ?s1, snd (snd (save_books ?s1 w)))"
    by (rule save_books_result)
  have found: "set_first_status i new_status (books s) = Some (pre @ b\<lparr>status := new_status\<rparr> # post)"
    using assms(2-4) by (simp add: set_first_status_first)
  have "update_book_status i new_status s w
          = (case save_books ?s1 w of
               (Inl e, s', w') \<Rightarrow> (Inl e, s', w')
             | (Inr _, s', w') \<Rightarrow> (Inr True, s', w'))"
    using assms(1) by (auto simp: update_book_status_def found)
  also have "\<dots> = (Inr True, ?s1, snd (snd (save_books ?s1 w)))"
    by (subst sv) simp
  finally show ?thesis .
qed

theorem update_changes_first_match_only_witness:
  "(checked_out = available \<or> checked_out = checked_out)
   \<and> books (example_store [example_book 3 (ascii ''Emma'') 1815, example_book 7 (ascii ''Dune'') 1965, example_book 7 (ascii ''Dune'') 1984])
       = [example_book 3 (ascii ''Emma'') 1815] @ example_book 7 (ascii ''Dune'') 1965 # [example_book 7 (ascii ''Dune'') 1984]
   \<and> id_attr (example_book 3 (ascii ''Emma'') 1815) \<noteq> 7
   \<and> id_attr (example_book 7 (ascii ''Dune'') 1965) = 7
   \<and> list_all book_encodable ([example_book 3 (ascii ''Emma'') 1815]
        @ (example_book 7 (ascii ''Dune'') 1965)\<lparr>status := checked_out\<rparr> # [example_book 7 (ascii ''Dune'') 1984])
   \<and> fst (update_book_status 7 checked_out (example_store [example_book 3 (ascii ''Emma'') 1815, example_book 7 (ascii ''Dune'') 1965, example_book 7 (ascii ''Dune'') 1984]) empty_world) = Inr True
   \<and> map status (books (fst (snd (update_book_status 7 checked_out (example_store [example_book 3 (ascii ''Emma'') 1815, example_book 7 (ascii ''Dune'') 1965, example_book 7 (ascii ''Dune'') 1984]) empty_world))))
       = [available, checked_out, available]"
proof -
  have a: "checked_out = available \<or> checked_out = checked_out" by simp
  have b: "books (example_store [example_book 3 (ascii ''Emma'') 1815, example_book 7 (ascii ''Dune'') 1965, example_book 7 (ascii ''Dune'') 1984])
       = [example_book 3 (ascii ''Emma'') 1815] @ example_book 7 (ascii ''Dune'') 1965 # [example_book 7 (ascii ''Dune'') 1984]"
    by (simp add: example_store_def)
  have c: "\<forall>x\<in>set [example_book 3 (ascii ''Emma'') 1815]. id_attr x \<noteq> 7"
    by (simp add: example_book_def)
  have d: "id_attr (example_book 7 (ascii ''Dune'') 1965) = 7"
    by (simp add: example_book_def)
  have e: "list_all book_encodable ([example_book 3 (ascii ''Emma'') 1815]
        @ (example_book 7 (ascii ''Dune'') 1965)\<lparr>status := checked_out\<rparr> # [example_book 7 (ascii ''Dune'') 1984])"
    by (simp add: example_book_def book_encodable_def encodable_def ascii_def available_def
        checked_out_def)
  show ?thesis
    using a b c d e update_changes_first_match_only [OF a b c d e, of empty_world]
    by (simp add: example_book_def)
qed

lemma update_book_status_not_found:
  "new_status = available \<or> new_status = checked_out \<Longrightarrow>
   \<forall>x\<in>set (books s). id_attr x \<noteq> i \<Longrightarrow>
   update_book_status i new_status s w = (Inr False, s, w)"
  by (auto simp: update_book_status_def set_first_status_none)

subsection \<open>Adding\<close>

text \<open>
  C7, as amended. For every title, author and year, every four bytes drawn and every
  collection, the texts being encodable, \<open>add_book\<close> returns a record with these
  attributes, the status \<open>available\<close> and the value of the four bytes, below \<open>2^32\<close>,
  as identifier; the record is appended at the end of the collection and the
  collection is saved. The identifier is not compared with those of the collection.
\<close>

theorem add_book_appends_available:
  assumes "length rnd = 4"
    and "encodable t" and "encodable a"
    and "list_all book_encodable (books s)"
  shows "add_book rnd t a y s w
           = (Inr \<lparr>id_attr = be_value rnd, title = t, author = a, year = y, status = available\<rparr>,
              s\<lparr>books := books s @
                 [\<lparr>id_attr = be_value rnd, title = t, author = a, year = y, status = available\<rparr>]\<rparr>,
              snd (snd (save_books (s\<lparr>books := books s @
                 [\<lparr>id_attr = be_value rnd, title = t, author = a, year = y, status = available\<rparr>]\<rparr>) w)))
         \<and> 0 \<le> be_value rnd \<and> be_value rnd < 2 ^ 32"
proof -
  let ?b = "\<lparr>id_attr = be_value rnd, title = t, author = a, year = y, status = available\<rparr>"
  let ?s1 = "s\<lparr>books := books s @ [?b]\<rparr>"
  from assms(1) have ne: "rnd \<noteq> []" by auto
  have bk: "Book rnd t a y = Inr ?b"
    by (simp add: Book_def generate_unique_id_value [OF ne])
  have "book_encodable ?b"
    using assms(2,3) by (simp add: book_encodable_def encodable_status)
  with assms(4) have "list_all book_encodable (books ?s1)" by simp
  then have sv: "save_books ?s1 w = (Inr (), ?s1, snd (snd (save_books ?s1 w)))"
    by (rule save_books_result)
  have "add_book rnd t a y s w =
      (case save_books ?s1 w of
         (Inl e, s', w') \<Rightarrow> (Inl e, s', w')
       | (Inr _, s', w') \<Rightarrow> (Inr ?b, s', w'))"
    by (simp add: add_book_def bk)
  also have "\<dots> = (Inr ?b, ?s1, snd (snd (save_books ?s1 w)))"
    by (subst sv) simp
  finally have r: "add_book rnd t a y s w = (Inr ?b, ?s1, snd (snd (save_books ?s1 w)))" .
  have "0 \<le> be_value rnd \<and> be_value rnd < 256 ^ length rnd"
    by (rule be_value_bounds)
  with assms(1) have "0 \<le> be_value rnd \<and> be_value rnd < 2 ^ 32" by simp
  with r show ?thesis by simp
qed

theorem add_book_appends_available_witness:
  "length [0, 0, 1, 2 :: 8 word] = 4
   \<and> encodable (ascii ''Dune'') \<and> encodable (ascii ''Herbert'')
   \<and> list_all book_encodable (books (example_store [example_book 7 (ascii ''Dune'') 1965]))
   \<and> fst (add_book [0, 0, 1, 2] (ascii ''Dune'') (ascii ''Herbert'') 1965 (example_store [example_book 7 (ascii ''Dune'') 1965]) empty_world)
       = Inr (example_book 258 (ascii ''Dune'') 1965)
   \<and> books (fst (snd (add_book [0, 0, 1, 2] (ascii ''Dune'') (ascii ''Herbert'') 1965 (example_store [example_book 7 (ascii ''Dune'') 1965]) empty_world)))
       = [example_book 7 (ascii ''Dune'') 1965, example_book 258 (ascii ''Dune'') 1965]"
proof -
  have len: "length [0, 0, 1, 2 :: 8 word] = 4" by simp
  have t: "encodable (ascii ''Dune'')" and a: "encodable (ascii ''Herbert'')"
    by (simp_all add: encodable_def ascii_def)
  have e: "list_all book_encodable (books (example_store [example_book 7 (ascii ''Dune'') 1965]))"
    by (simp add: example_store_def example_book_def book_encodable_def encodable_def
        ascii_def available_def)
  show ?thesis
    using len t a e add_book_appends_available [OF len t a e, of 1965 empty_world]
    by (simp add: example_store_def example_book_def)
qed

text \<open>
  C7 as stated fails where the four bytes drawn are those of an identifier in use:
  with a record of identifier 7 in the collection and the bytes 0, 0, 0, 7, the record
  that \<open>add_book\<close> returns has the identifier 7 as well.
\<close>

theorem add_book_identifier_collision:
  "map_sum id id_attr
     (fst (add_book [0, 0, 0, 7] (ascii ''Emma'') (ascii ''Austen'') 1815 (example_store [example_book 7 (ascii ''Dune'') 1965]) empty_world)) = Inr 7
   \<and> 7 \<in> set (map id_attr (books (example_store [example_book 7 (ascii ''Dune'') 1965])))"
  by (simp add: add_book_def Book_def generate_unique_id_def int16_def hex_def hex_digit_def
      hex_val_def save_books_def example_store_def example_book_def empty_world_def
      book_encodable_def encodable_def ascii_def available_def)

subsection \<open>A save that fails\<close>

text \<open>
  C8, as amended. When the write of a save fails, \<open>save_books\<close> prints its error
  line and returns to its caller with no value and no exception, as it does after a
  write that succeeded; the store, and with it the collection in memory, is exactly
  as before.
\<close>

theorem save_books_failure_keeps_memory:
  assumes "faults w (storage_file s) \<noteq> NoFault"
  shows "fst (save_books s w) = Inr ()
         \<and> fst (snd (save_books s w)) = s
         \<and> stdout (snd (snd (save_books s w))) = stdout w @ [SaveFailed]"
  using assms by (cases "faults w (storage_file s)") (simp_all add: save_books_def)

theorem save_books_failure_keeps_memory_witness:
  "faults failing_world (storage_file (example_store [example_book 7 (ascii ''Dune'') 1965])) \<noteq> NoFault
   \<and> save_books (example_store [example_book 7 (ascii ''Dune'') 1965]) failing_world = (Inr (), example_store [example_book 7 (ascii ''Dune'') 1965], failing_world\<lparr>stdout := [SaveFailed]\<rparr>)"
proof -
  have h: "faults failing_world (storage_file (example_store [example_book 7 (ascii ''Dune'') 1965])) \<noteq> NoFault"
    by (simp add: failing_world_def)
  have w: "snd (snd (save_books (example_store [example_book 7 (ascii ''Dune'') 1965]) failing_world)) = failing_world\<lparr>stdout := [SaveFailed]\<rparr>"
    by (simp add: save_books_def failing_world_def)
  show ?thesis
    using h w save_books_failure_keeps_memory [OF h]
    by (cases "save_books (example_store [example_book 7 (ascii ''Dune'') 1965]) failing_world") simp
qed

text \<open>
  C8 as stated fails in its first half: the caller of a save that failed gets what the
  caller of a save that succeeded gets, and \<open>remove_book\<close>, which called it, answers
  \<open>True\<close> although the file was not written.
\<close>

theorem save_books_failure_not_reported:
  "fst (save_books (example_store [example_book 7 (ascii ''Dune'') 1965]) failing_world) = fst (save_books (example_store [example_book 7 (ascii ''Dune'') 1965]) empty_world)
   \<and> fst (remove_book 7 (example_store [example_book 7 (ascii ''Dune'') 1965]) failing_world) = Inr True
   \<and> files (snd (snd (remove_book 7 (example_store [example_book 7 (ascii ''Dune'') 1965]) failing_world))) (ascii ''library_books.json'') = None"
  by (simp add: remove_book_def save_books_def example_store_def example_book_def
      failing_world_def empty_world_def book_encodable_def encodable_def ascii_def available_def
      Let_def)

subsection \<open>Searching\<close>

lemma digits_range: "c \<in> set (digits n) \<Longrightarrow> 48 \<le> c \<and> c \<le> 57"
proof (induction n rule: digits.induct)
  case (1 n)
  show ?case
  proof (cases "n < 10")
    case True
    with "1.prems" show ?thesis by (simp add: digits.simps [of n])
  next
    case False
    with "1.prems" have "c \<in> set (digits (n div 10)) \<or> c = 48 + n mod 10"
      by (auto simp: digits.simps [of n])
    then show ?thesis
    proof
      assume "c \<in> set (digits (n div 10))"
      with False "1.IH" show ?thesis by simp
    next
      assume "c = 48 + n mod 10"
      moreover have "n mod 10 < 10" by simp
      ultimately show ?thesis by linarith
    qed
  qed
qed

lemma str_int_range: "c \<in> set (str_int n) \<Longrightarrow> c < 65"
  using digits_range [of c] by (fastforce simp: str_int_def split: if_splits)

lemma ascii_lower_fixes: "\<forall>c\<in>set s. c < 65 \<Longrightarrow> ascii_lower s = s"
  by (induction s) (simp_all add: ascii_lower_def)

lemma ascii_lower_reflects: "\<forall>c\<in>set (ascii_lower q). c < 65 \<Longrightarrow> ascii_lower q = q"
  by (induction q) (auto simp: ascii_lower_def split: if_splits)

lemma keeps_numerals_ascii_lower: "keeps_numerals ascii_lower"
  unfolding keeps_numerals_def
proof (intro allI iffI)
  fix q n
  assume "ascii_lower q = str_int n"
  then have "\<forall>c\<in>set (ascii_lower q). c < 65" by (simp add: str_int_range)
  then have "ascii_lower q = q" by (rule ascii_lower_reflects)
  with \<open>ascii_lower q = str_int n\<close> show "q = str_int n" by simp
next
  fix q n
  assume "q = str_int n"
  then have "\<forall>c\<in>set q. c < 65" by (simp add: str_int_range)
  then have "ascii_lower q = q" by (rule ascii_lower_fixes)
  with \<open>q = str_int n\<close> show "ascii_lower q = str_int n" by simp
qed

text \<open>
  C5. Searching by \<open>year\<close> returns, in the order of the collection, the records whose
  year written as text is the lowered query, character for character; since lowering
  leaves numerals alone, these are the records whose year written as text is the
  query. The text of 2020 is \<open>2020\<close>; the texts of 12020 and 202 are not, and the text
  of 2005 is not \<open>5\<close>.
\<close>

theorem search_by_year_is_text_equality:
  "search_books lower q (ascii ''year'') s = filter (\<lambda>b. lower q = str_int (year b)) (books s)
   \<and> (keeps_numerals lower \<longrightarrow>
        search_books lower q (ascii ''year'') s = filter (\<lambda>b. str_int (year b) = q) (books s))
   \<and> str_int 2020 = ascii ''2020'' \<and> str_int 12020 \<noteq> ascii ''2020''
   \<and> str_int 202 \<noteq> ascii ''2020'' \<and> str_int 2005 \<noteq> ascii ''5''"
proof -
  have code: "search_books lower q (ascii ''year'') s
                = filter (\<lambda>b. lower q = str_int (year b)) (books s)"
    by (simp add: search_books_def ascii_def)
  have "keeps_numerals lower \<Longrightarrow>
        filter (\<lambda>b. lower q = str_int (year b)) (books s) = filter (\<lambda>b. str_int (year b) = q) (books s)"
    by (rule filter_cong) (auto simp: keeps_numerals_def)
  moreover have "str_int 2020 = ascii ''2020''" "str_int 12020 \<noteq> ascii ''2020''"
    "str_int 202 \<noteq> ascii ''2020''" "str_int 2005 \<noteq> ascii ''5''"
    by (simp_all add: str_int_def ascii_def digits.simps)
  ultimately show ?thesis using code by simp
qed

theorem search_by_year_is_text_equality_witness:
  "keeps_numerals ascii_lower
   \<and> search_books ascii_lower (ascii ''2020'') (ascii ''year'')
        (example_store [example_book 1 (ascii ''A'') 2020, example_book 2 (ascii ''B'') 12020,
                        example_book 3 (ascii ''C'') 202, example_book 4 (ascii ''D'') 2020])
       = [example_book 1 (ascii ''A'') 2020, example_book 4 (ascii ''D'') 2020]
   \<and> search_books ascii_lower (ascii ''5'') (ascii ''year'')
        (example_store [example_book 1 (ascii ''A'') 2005]) = []"
  using keeps_numerals_ascii_lower
    search_by_year_is_text_equality [of ascii_lower "ascii ''2020''"
      "example_store [example_book 1 (ascii ''A'') 2020, example_book 2 (ascii ''B'') 12020,
                      example_book 3 (ascii ''C'') 202, example_book 4 (ascii ''D'') 2020]"]
    search_by_year_is_text_equality [of ascii_lower "ascii ''5''"
      "example_store [example_book 1 (ascii ''A'') 2005]"]
  by (simp add: example_store_def example_book_def str_int_def ascii_def ascii_lower_def digits.simps)

lemma contains_ignoring_case_sublist:
  "contains_ignoring_case lower q t = sublist (lower q) (lower t)"
  by (simp add: contains_ignoring_case_def sublist_def)

text \<open>
  C6. Searching by \<open>title\<close>, and by \<open>author\<close>, returns, in the order of the
  collection, the records whose title, or author, contains the query as a
  case-insensitive substring. The lower case of the empty string being empty, the
  empty query returns the whole collection.
\<close>

theorem search_by_text_is_substring:
  "search_books lower q (ascii ''title'') s
     = filter (\<lambda>b. contains_ignoring_case lower q (title b)) (books s)
   \<and> search_books lower q (ascii ''author'') s
     = filter (\<lambda>b. contains_ignoring_case lower q (author b)) (books s)
   \<and> (lower [] = [] \<longrightarrow> search_books lower [] (ascii ''title'') s = books s)"
  by (simp add: search_books_def contains_ignoring_case_sublist ascii_def)

theorem search_by_text_is_substring_witness:
  "ascii_lower [] = []
   \<and> search_books ascii_lower [] (ascii ''title'')
        (example_store [example_book 1 (ascii ''Dune'') 1965, example_book 2 (ascii ''Emma'') 1815])
       = [example_book 1 (ascii ''Dune'') 1965, example_book 2 (ascii ''Emma'') 1815]
   \<and> search_books ascii_lower (ascii ''dUN'') (ascii ''title'')
        (example_store [example_book 1 (ascii ''Dune'') 1965, example_book 2 (ascii ''Emma'') 1815])
       = [example_book 1 (ascii ''Dune'') 1965]"
  using search_by_text_is_substring [of ascii_lower "[]"
      "example_store [example_book 1 (ascii ''Dune'') 1965, example_book 2 (ascii ''Emma'') 1815]"]
    search_by_text_is_substring [of ascii_lower "ascii ''dUN''"
      "example_store [example_book 1 (ascii ''Dune'') 1965, example_book 2 (ascii ''Emma'') 1815]"]
  by (simp add: contains_ignoring_case_sublist example_store_def example_book_def ascii_lower_def
      ascii_def sublist_code)

end
